theory Spec2Isabelle
  imports Main "HOL-Library.List_Lexorder" "HOL-Library.Multiset"
begin

unbundle bit_operations_syntax

section \<open>Finger of God: the window-targeted click injector\<close>

text \<open>
  The program is a Python script, \<^verbatim>\<open>fingerofgod.py\<close>. Its logic lives in the static
  methods of \<^verbatim>\<open>WindowsAPI\<close> and in a handful of methods of \<^verbatim>\<open>AutoClickerApp\<close>. Every
  effect of the script goes through a foreign function of \<^verbatim>\<open>user32\<close>, through
  \<^verbatim>\<open>time.sleep\<close>, through the \<^verbatim>\<open>keyboard\<close> library or through a Tk widget. The model
  makes these effects explicit: each function returns, next to its result, the list of
  effects it performed, in order, and each foreign call is recorded with the value it
  returned.

  Conventions of the model.
  \<^item> Python integers are \<open>int\<close>. A foreign function accepts every integer argument (the
    marshalling done by \<^verbatim>\<open>ctypes\<close> is not part of the script).
  \<^item> Durations are in milliseconds: \<^verbatim>\<open>time.sleep(0.01)\<close> is \<open>time_sleep 10\<close>,
    \<^verbatim>\<open>time.sleep(0.05)\<close> is \<open>time_sleep 50\<close>, and \<^verbatim>\<open>time.sleep(delay_ms / 1000.0)\<close> is
    \<open>time_sleep delay_ms\<close>.
  \<^item> A window title is a list of code points, since trimming and sorting look at them;
    the literals the script compares and displays are ASCII strings.
  \<^item> A raised exception is a value \<open>Inl e\<close> of a sum type. The calls into Tk and into
    the \<^verbatim>\<open>keyboard\<close> library are effects that do not raise.
  \<^item> The methods of the interface thread run one after another; what another thread
    changes meanwhile reaches a function through its arguments.
\<close>

subsection \<open>Data\<close>

type_synonym pystr = "nat list"

datatype WindowInfo = WindowInfo (hwnd: int) (title: pystr)

datatype ClickPosition = ClickPosition (pos_x: int) (pos_y: int)

datatype exn = ValueError string | AttributeError string

fun str_exn :: "exn \<Rightarrow> string" where
  "str_exn (ValueError m) = m"
| "str_exn (AttributeError m) = m"

text \<open>
  The state of \<^verbatim>\<open>user32\<close> at one moment, as the answers its functions give. \<open>IsWindow\<close>,
  \<open>IsWindowVisible\<close> and \<open>PostMessageW\<close> return a C \<^verbatim>\<open>BOOL\<close> (zero is failure).
  \<open>EnumWindows\<close> is the sequence of handles the enumeration passes to its callback,
  \<open>GetWindowTextW\<close> the text the window would copy into a buffer that is large enough.
\<close>

record user32 =
  IsWindow :: "int \<Rightarrow> int"
  IsWindowVisible :: "int \<Rightarrow> int"
  GetWindowTextLengthW :: "int \<Rightarrow> int"
  GetWindowTextW :: "int \<Rightarrow> pystr"
  EnumWindows :: "int list"
  ScreenToClient :: "int \<Rightarrow> int \<Rightarrow> int \<Rightarrow> int \<times> int"
  PostMessageW :: "int \<Rightarrow> int \<Rightarrow> int \<Rightarrow> int \<Rightarrow> int"
  GetCursorPos :: "int \<times> int"

text \<open>The effects, in the order the script performs them.\<close>

datatype event =
    call_IsWindow int int
  | call_ScreenToClient int int int "int \<times> int"
  | call_PostMessageW int int int int int
  | call_GetCursorPos "int \<times> int"
  | time_sleep int
  | read_is_running bool
  | root_after_handle_clicking_error string
  | messagebox_showwarning string string
  | messagebox_showerror string string
  | toggle_btn_config string
  | update_status string bool bool
  | click_thread_start
  | select_position_btn_config string string
  | position_label_config ClickPosition
  | keyboard_add_hotkey string
  | keyboard_remove_hotkey string
  | root_iconify
  | root_deiconify
  | root_lift
  | root_focus_set

definition WM_LBUTTONDOWN :: int where "WM_LBUTTONDOWN = 0x0201"
definition WM_LBUTTONUP :: int where "WM_LBUTTONUP = 0x0202"
definition WM_RBUTTONDOWN :: int where "WM_RBUTTONDOWN = 0x0204"
definition WM_RBUTTONUP :: int where "WM_RBUTTONUP = 0x0205"

subsection \<open>WindowsAPI\<close>

definition is_window_valid :: "user32 \<Rightarrow> int \<Rightarrow> bool" where
  "is_window_valid os h = (IsWindow os h \<noteq> 0)"

definition is_window_visible :: "user32 \<Rightarrow> int \<Rightarrow> bool" where
  "is_window_visible os h = (IsWindowVisible os h \<noteq> 0)"

definition screen_to_client :: "user32 \<Rightarrow> int \<Rightarrow> int \<Rightarrow> int \<Rightarrow> int \<times> int" where
  "screen_to_client os h x y = ScreenToClient os h x y"

text \<open>\<^verbatim>\<open>lParam = (client_y << 16) | (client_x & 0xFFFF)\<close>\<close>

definition make_lParam :: "int \<Rightarrow> int \<Rightarrow> int" where
  "make_lParam client_x client_y = (push_bit 16 client_y) OR (client_x AND 0xFFFF)"

text \<open>One \<^verbatim>\<open>windll.user32.PostMessageW(hwnd, msg, wParam, lParam)\<close>; its value is dropped.\<close>

definition post :: "user32 \<Rightarrow> int \<Rightarrow> int \<Rightarrow> int \<Rightarrow> int \<Rightarrow> event" where
  "post os h msg wParam lParam = call_PostMessageW h msg wParam lParam (PostMessageW os h msg wParam lParam)"

definition send_mouse_click ::
  "user32 \<Rightarrow> int \<Rightarrow> int \<Rightarrow> int \<Rightarrow> string \<Rightarrow> event list \<times> (exn + unit)" where
  "send_mouse_click os h x y click_type =
    (if \<not> is_window_valid os h
     then ([call_IsWindow h (IsWindow os h)], Inl (ValueError ''Invalid window handle''))
     else
       let (client_x, client_y) = screen_to_client os h x y;
           lParam = make_lParam client_x client_y;
           before = [call_IsWindow h (IsWindow os h),
                     call_ScreenToClient h x y (client_x, client_y)]
       in if click_type = ''Left Click'' then
            (before @ [post os h WM_LBUTTONDOWN 1 lParam,
                       time_sleep 10,
                       post os h WM_LBUTTONUP 0 lParam], Inr ())
          else if click_type = ''Right Click'' then
            (before @ [post os h WM_RBUTTONDOWN 2 lParam,
                       time_sleep 10,
                       post os h WM_RBUTTONUP 0 lParam], Inr ())
          else if click_type = ''Double Click'' then
            (before @ [post os h WM_LBUTTONDOWN 1 lParam,
                       post os h WM_LBUTTONUP 0 lParam,
                       time_sleep 50,
                       post os h WM_LBUTTONDOWN 1 lParam,
                       post os h WM_LBUTTONUP 0 lParam], Inr ())
          else (before, Inr ()))"

text \<open>What a trace shows: the posted messages, and the posts and waits between them.\<close>

fun is_post :: "event \<Rightarrow> bool" where
  "is_post (call_PostMessageW h msg wParam lParam r) = True"
| "is_post e = False"

text \<open>A posted message (its window and its code) or a wait, without the parameters.\<close>

datatype wire = Msg int int | Wait int

fun wire_of :: "event \<Rightarrow> wire list" where
  "wire_of (call_PostMessageW h msg wParam lParam r) = [Msg h msg]"
| "wire_of (time_sleep ms) = [Wait ms]"
| "wire_of e = []"

definition wires :: "event list \<Rightarrow> wire list" where
  "wires es = concat (map wire_of es)"

fun lParam_of :: "event \<Rightarrow> int" where
  "lParam_of (call_PostMessageW h msg wParam lParam r) = lParam"
| "lParam_of e = 0"

fun result_of :: "event \<Rightarrow> int" where
  "result_of (call_PostMessageW h msg wParam lParam r) = r"
| "result_of e = 0"

text \<open>The total time slept in a trace, in milliseconds.\<close>

fun slept_ms :: "event list \<Rightarrow> int" where
  "slept_ms [] = 0"
| "slept_ms (time_sleep ms # es) = ms + slept_ms es"
| "slept_ms (e # es) = slept_ms es"

text \<open>A desktop for the examples: window 1 exists with its client area at (10, 20).\<close>

definition desk :: user32 where
  "desk = \<lparr>IsWindow = (\<lambda>h. if h = 1 then 1 else 0),
           IsWindowVisible = (\<lambda>h. if h = 1 then 1 else 0),
           GetWindowTextLengthW = (\<lambda>h. 0),
           GetWindowTextW = (\<lambda>h. []),
           EnumWindows = [1],
           ScreenToClient = (\<lambda>h x y. (x - 10, y - 20)),
           PostMessageW = (\<lambda>h msg wParam lParam. 1),
           GetCursorPos = (100, 200)\<rparr>"

text \<open>The same desktop when the message queue of every window refuses every post.\<close>

definition desk_refusing :: user32 where
  "desk_refusing = desk\<lparr>PostMessageW := (\<lambda>h msg wParam lParam. 0)\<rparr>"


subsection \<open>Enumerating the windows\<close>

text \<open>
  Two built-ins of Python's \<^verbatim>\<open>str\<close> depend on the Unicode tables, which are not part of
  the script: \<^verbatim>\<open>str.isspace\<close>, which decides what \<^verbatim>\<open>strip()\<close> removes, and
  \<^verbatim>\<open>str.lower\<close>. They are parameters of the model, \<open>isspace\<close> and \<open>lower\<close>.
  Strings compare as Python compares them, code point by code point, a proper prefix
  first.
\<close>

text \<open>\<^verbatim>\<open>s.strip()\<close>\<close>

definition strip :: "(nat \<Rightarrow> bool) \<Rightarrow> pystr \<Rightarrow> pystr" where
  "strip isspace s = dropWhile isspace (rev (dropWhile isspace (rev s)))"

text \<open>\<^verbatim>\<open>s.rstrip('\x00')\<close>\<close>

definition rstrip_nul :: "pystr \<Rightarrow> pystr" where
  "rstrip_nul s = rev (dropWhile (\<lambda>c. c = 0) (rev s))"

text \<open>
  The buffer has \<open>len + 1\<close> cells, all zero at first; \<^verbatim>\<open>GetWindowTextW\<close> copies at most
  \<open>len\<close> characters of the text into it.
\<close>

definition get_window_text :: "user32 \<Rightarrow> int \<Rightarrow> pystr" where
  "get_window_text os h =
    (let len = GetWindowTextLengthW os h in
     if len \<le> 0 then []
     else
       let copied = take (nat len) (GetWindowTextW os h);
           buffer = copied @ replicate (nat (len + 1) - length copied) 0
       in rstrip_nul buffer)"

definition enum_callback :: "(nat \<Rightarrow> bool) \<Rightarrow> user32 \<Rightarrow> WindowInfo list \<Rightarrow> int \<Rightarrow> WindowInfo list" where
  "enum_callback isspace os windows h =
    (if is_window_visible os h then
       let t = get_window_text os h in
       if strip isspace t \<noteq> [] then windows @ [WindowInfo h t] else windows
     else windows)"

text \<open>\<^verbatim>\<open>sorted\<close> is stable, as \<open>sort_key\<close> is.\<close>

definition enumerate_windows ::
  "(nat \<Rightarrow> bool) \<Rightarrow> (pystr \<Rightarrow> pystr) \<Rightarrow> user32 \<Rightarrow> WindowInfo list" where
  "enumerate_windows isspace lower os =
    (let windows = foldl (enum_callback isspace os) [] (EnumWindows os)
     in sort_key (\<lambda>w. lower (title w)) windows)"

text \<open>A window qualifies when it is visible and its title is not empty once trimmed.\<close>

definition qualifies :: "(nat \<Rightarrow> bool) \<Rightarrow> user32 \<Rightarrow> int \<Rightarrow> bool" where
  "qualifies isspace os h =
    (is_window_visible os h \<and> strip isspace (get_window_text os h) \<noteq> [])"

text \<open>For the examples: the ASCII part of the two built-ins.\<close>

definition isspace_ascii :: "nat \<Rightarrow> bool" where
  "isspace_ascii c = (c = 32 \<or> (9 \<le> c \<and> c \<le> 13))"

definition lower_ascii :: "pystr \<Rightarrow> pystr" where
  "lower_ascii s = map (\<lambda>c. if 65 \<le> c \<and> c \<le> 90 then c + 32 else c) s"

text \<open>
  A desktop with four windows, in enumeration order: 1 is ``beta'', 2 is hidden, 3 has a
  title of three blanks, 4 is ``Alpha''.
\<close>

definition desk4 :: user32 where
  "desk4 = desk\<lparr>IsWindowVisible := (\<lambda>h. if h = 2 then 0 else 1),
                GetWindowTextW :=
                  (\<lambda>h. if h = 1 then [98, 101, 116, 97]
                       else if h = 2 then [104, 105]
                       else if h = 3 then [32, 32, 32]
                       else [65, 108, 112, 104, 97]),
                GetWindowTextLengthW := (\<lambda>h. if h = 1 then 4 else if h = 2 then 2 else if h = 3 then 3 else 5),
                EnumWindows := [1, 2, 3, 4]\<rparr>"


subsection \<open>AutoClickerApp\<close>

text \<open>
  The fields of the application object that the methods below read and write; the last
  two are the Tk variables behind the click-type box and the delay box.
\<close>

record app =
  is_running :: bool
  click_position :: "ClickPosition option"
  selected_window :: "WindowInfo option"
  position_selection_active :: bool
  click_type_var :: string
  delay_var :: string

text \<open>The state \<^verbatim>\<open>__init__\<close> sets up.\<close>

definition init_app :: app where
  "init_app = \<lparr>is_running = False, click_position = None, selected_window = None,
               position_selection_active = False,
               click_type_var = ''Left Click'', delay_var = ''100''\<rparr>"

definition get_cursor_position :: "user32 \<Rightarrow> int \<times> int" where
  "get_cursor_position os = GetCursorPos os"

definition start_position_selection :: "app \<Rightarrow> app \<times> event list" where
  "start_position_selection s =
    (if position_selection_active s then (s, [])
     else (s\<lparr>position_selection_active := True\<rparr>,
           [select_position_btn_config ''disabled'' ''Move mouse and press F8'',
            update_status ''Move your mouse to the desired position and press F8'' False False,
            root_iconify,
            keyboard_add_hotkey ''F8'']))"

definition handle_position_hotkey :: "user32 \<Rightarrow> app \<Rightarrow> app \<times> event list" where
  "handle_position_hotkey os s =
    (if position_selection_active s then
       let (x, y) = get_cursor_position os
       in (s\<lparr>click_position := Some (ClickPosition x y), position_selection_active := False\<rparr>,
           [call_GetCursorPos (x, y),
            position_label_config (ClickPosition x y),
            select_position_btn_config ''normal'' ''Select Position (F8)'',
            keyboard_remove_hotkey ''F8'',
            root_deiconify, root_lift, root_focus_set,
            update_status ''Position selected successfully!'' False True])
     else (s, []))"

text \<open>
  The hotkey pressed once for each desktop state of the list, in turn: the state after
  the last press and the effects of all of them.
\<close>

fun press_hotkey :: "user32 list \<Rightarrow> app \<Rightarrow> app \<times> event list" where
  "press_hotkey [] s = (s, [])"
| "press_hotkey (os # oss) s =
    (case handle_position_hotkey os s of
       (s', es) \<Rightarrow> (case press_hotkey oss s' of (s'', es') \<Rightarrow> (s'', es @ es')))"

definition start_clicking :: "user32 \<Rightarrow> app \<Rightarrow> app \<times> event list" where
  "start_clicking os s =
    (case selected_window s of
       None \<Rightarrow>
         (s, [messagebox_showwarning ''No Window Selected''
                ''Please select a target window first!''])
     | Some w \<Rightarrow>
         (case click_position s of
            None \<Rightarrow>
              (s, [messagebox_showwarning ''No Position Selected''
                     ''Please select a click position first!''])
          | Some p \<Rightarrow>
              if \<not> is_window_valid os (hwnd w) then
                (s, [call_IsWindow (hwnd w) (IsWindow os (hwnd w)),
                     messagebox_showerror ''Invalid Window''
                       ''The selected window is no longer valid. Please refresh the window list.''])
              else
                (s\<lparr>is_running := True\<rparr>,
                 [call_IsWindow (hwnd w) (IsWindow os (hwnd w)),
                  toggle_btn_config ''Stop Auto Clicking (F6)'',
                  update_status ''Auto-clicking started...'' False False,
                  click_thread_start])))"

definition stop_clicking :: "app \<Rightarrow> app \<times> event list" where
  "stop_clicking s =
    (s\<lparr>is_running := False\<rparr>,
     [toggle_btn_config ''Start Auto Clicking (F6)'',
      update_status ''Auto-clicking stopped'' False False])"

definition toggle_clicking :: "user32 \<Rightarrow> app \<Rightarrow> app \<times> event list" where
  "toggle_clicking os s = (if is_running s then stop_clicking s else start_clicking os s)"

definition handle_clicking_error :: "string \<Rightarrow> app \<Rightarrow> app \<times> event list" where
  "handle_clicking_error error_message s =
    (s\<lparr>is_running := False\<rparr>,
     [toggle_btn_config ''Start Auto Clicking (F6)'',
      update_status error_message True False,
      messagebox_showerror ''Auto-Clicking Error'' error_message])"

fun is_messagebox :: "event \<Rightarrow> bool" where
  "is_messagebox (messagebox_showwarning t m) = True"
| "is_messagebox (messagebox_showerror t m) = True"
| "is_messagebox e = False"

subsection \<open>The clicking loop\<close>

text \<open>
  The loop runs on a thread of its own while the interface thread and the desktop go on
  changing what it reads. One \<open>tick\<close> holds what one pass of the loop finds: the fields
  of the application object as it reads them, the desktop at the liveness test, and the
  desktop during the click. Each field holds one value during a pass. A list of ticks is a
  finite prefix of a run; when it is used up and the loop has not returned, the result is
  \<open>None\<close>.

  \<^verbatim>\<open>int(self.delay_var.get())\<close> is the parameter \<open>int_of\<close>, the built-in \<^verbatim>\<open>int\<close> on
  strings. \<^verbatim>\<open>time.sleep\<close> raises \<^verbatim>\<open>ValueError\<close> on a negative length. Reading
  \<^verbatim>\<open>.hwnd\<close> or \<^verbatim>\<open>.x\<close> of \<^verbatim>\<open>None\<close> raises \<^verbatim>\<open>AttributeError\<close>.

  The event \<open>root_after_handle_clicking_error\<close> records that the loop handed a callback to
  the interface thread, with the message the callback is written to show. The callback
  runs later, on the interface thread; the one made in the \<^verbatim>\<open>except\<close> block builds its
  message from \<^verbatim>\<open>e\<close> only then, after the block has ended. What a callback does when
  it runs is not part of the loop's trace.
\<close>

record tick =
  seen :: app
  os_check :: user32
  os_click :: user32

datatype flow = Continue | Break | Raise exn

definition none_has_no_attribute :: "string \<Rightarrow> exn" where
  "none_has_no_attribute a =
    AttributeError ([CHR 0x27] @ ''NoneType'' @ [CHR 0x27] @ '' object has no attribute ''
                    @ [CHR 0x27] @ a @ [CHR 0x27])"

text \<open>The body of the \<^verbatim>\<open>while\<close> loop, after its test.\<close>

definition loop_body :: "(string \<Rightarrow> exn + int) \<Rightarrow> tick \<Rightarrow> event list \<times> flow" where
  "loop_body int_of t =
    (case selected_window (seen t) of
       None \<Rightarrow> ([], Raise (none_has_no_attribute ''hwnd''))
     | Some w \<Rightarrow>
         let chk = call_IsWindow (hwnd w) (IsWindow (os_check t) (hwnd w)) in
         if \<not> is_window_valid (os_check t) (hwnd w) then
           ([chk, root_after_handle_clicking_error ''Target window closed''], Break)
         else
           (case click_position (seen t) of
              None \<Rightarrow> ([chk], Raise (none_has_no_attribute ''x''))
            | Some p \<Rightarrow>
                (case send_mouse_click (os_click t) (hwnd w) (pos_x p) (pos_y p)
                        (click_type_var (seen t)) of
                   (es, Inl e) \<Rightarrow> (chk # es, Raise e)
                 | (es, Inr u) \<Rightarrow>
                     (case int_of (delay_var (seen t)) of
                        Inl e \<Rightarrow> (chk # es, Raise e)
                      | Inr delay_ms \<Rightarrow>
                          if delay_ms < 0 then
                            (chk # es, Raise (ValueError ''sleep length must be non-negative''))
                          else (chk # es @ [time_sleep delay_ms], Continue)))))"

fun clicking_loop :: "(string \<Rightarrow> exn + int) \<Rightarrow> tick list \<Rightarrow> event list \<times> unit option" where
  "clicking_loop int_of [] = ([], None)"
| "clicking_loop int_of (t # ts) =
    (if \<not> is_running (seen t) then ([read_is_running False], Some ())
     else
       (case loop_body int_of t of
          (es, Continue) \<Rightarrow>
            (case clicking_loop int_of ts of
               (es', r) \<Rightarrow> (read_is_running True # es @ es', r))
        | (es, Break) \<Rightarrow> (read_is_running True # es, Some ())
        | (es, Raise e) \<Rightarrow>
            (read_is_running True # es @
               [root_after_handle_clicking_error (''Clicking error: '' @ str_exn e)], Some ())))"

text \<open>The waits inside one click, in milliseconds.\<close>

definition click_wait :: "string \<Rightarrow> int" where
  "click_wait click_type =
    (if click_type = ''Left Click'' \<or> click_type = ''Right Click'' then 10
     else if click_type = ''Double Click'' then 50 else 0)"

text \<open>For the examples: \<^verbatim>\<open>int\<close> on the strings that are plain ASCII digits.\<close>

definition int_of_digits :: "string \<Rightarrow> exn + int" where
  "int_of_digits s =
    (if s \<noteq> [] \<and> list_all (\<lambda>c. 48 \<le> (of_char c :: nat) \<and> (of_char c :: nat) \<le> 57) s
     then Inr (foldl (\<lambda>n c. 10 * n + (int (of_char c) - 48)) 0 s)
     else Inl (ValueError ''invalid literal for int() with base 10''))"

text \<open>
  For the examples: the application once window 1 and the point (100, 200) are selected,
  set to double clicks every millisecond, and two ticks, one that finds the loop running
  and one that finds it stopped.
\<close>

definition app_ready :: app where
  "app_ready = init_app\<lparr>selected_window := Some (WindowInfo 1 [98, 101, 116, 97]),
                        click_position := Some (ClickPosition 100 200),
                        click_type_var := ''Double Click'', delay_var := ''1''\<rparr>"

definition tick_on :: tick where
  "tick_on = \<lparr>seen = app_ready\<lparr>is_running := True\<rparr>, os_check = desk, os_click = desk\<rparr>"

definition tick_off :: tick where
  "tick_off = \<lparr>seen = app_ready\<lparr>is_running := False\<rparr>, os_check = desk, os_click = desk\<rparr>"

text \<open>A tick that finds the loop running and the window gone.\<close>

definition tick_gone :: tick where
  "tick_gone = tick_on\<lparr>os_check := desk\<lparr>IsWindow := (\<lambda>h. 0)\<rparr>\<rparr>"

text \<open>
  The tick after the start/stop key was pressed once while the loop ran, and the tick
  after it was pressed twice, so that the application was stopped and started again
  between two tests of the flag.
\<close>

definition tick_stopped :: tick where
  "tick_stopped = tick_on\<lparr>seen := fst (toggle_clicking desk (seen tick_on))\<rparr>"

definition tick_restarted :: tick where
  "tick_restarted =
     tick_on\<lparr>seen := fst (toggle_clicking desk (fst (toggle_clicking desk (seen tick_on))))\<rparr>"

section \<open>Properties of the click synthesizer\<close>

lemma mask16: "(x::int) AND 0xFFFF = take_bit 16 x"
  using take_bit_eq_mask [of 16 x] by (simp add: mask_eq_exp_minus_1)

lemma make_lParam_low: "take_bit 16 (make_lParam client_x client_y) = take_bit 16 client_x"
  unfolding make_lParam_def mask16 by (simp add: take_bit_push_bit)

lemma make_lParam_high: "drop_bit 16 (make_lParam client_x client_y) = client_y"
  unfolding make_lParam_def mask16 by (simp add: drop_bit_take_bit drop_bit_push_bit)

lemmas click_defs = send_mouse_click_def screen_to_client_def post_def wires_def Let_def

lemma desk_valid: "is_window_valid desk 1"
  by (simp add: is_window_valid_def desk_def)

text \<open>
  Claim C1. On a valid handle, a double click posts exactly four messages to the window,
  left-button-down, left-button-up, left-button-down, left-button-up, with no wait inside
  the first pair and a wait of 50 ms between the second and the third message; a left
  click and a right click post exactly two messages, the button-down and the button-up
  of that button, with a wait of 10 ms between them. Each of the three returns normally.
\<close>

theorem click_sequences:
  assumes "is_window_valid os h"
  shows "wires (fst (send_mouse_click os h x y ''Double Click'')) =
           [Msg h WM_LBUTTONDOWN, Msg h WM_LBUTTONUP, Wait 50,
            Msg h WM_LBUTTONDOWN, Msg h WM_LBUTTONUP]
       \<and> wires (fst (send_mouse_click os h x y ''Left Click'')) =
           [Msg h WM_LBUTTONDOWN, Wait 10, Msg h WM_LBUTTONUP]
       \<and> wires (fst (send_mouse_click os h x y ''Right Click'')) =
           [Msg h WM_RBUTTONDOWN, Wait 10, Msg h WM_RBUTTONUP]
       \<and> snd (send_mouse_click os h x y ''Double Click'') = Inr ()
       \<and> snd (send_mouse_click os h x y ''Left Click'') = Inr ()
       \<and> snd (send_mouse_click os h x y ''Right Click'') = Inr ()"
  using assms by (simp add: click_defs split: prod.split)

theorem click_sequences_witness:
  "is_window_valid desk 1
   \<and> wires (fst (send_mouse_click desk 1 100 200 ''Double Click'')) =
       [Msg 1 0x201, Msg 1 0x202, Wait 50, Msg 1 0x201, Msg 1 0x202]
   \<and> wires (fst (send_mouse_click desk 1 100 200 ''Left Click'')) =
       [Msg 1 0x201, Wait 10, Msg 1 0x202]
   \<and> wires (fst (send_mouse_click desk 1 100 200 ''Right Click'')) =
       [Msg 1 0x204, Wait 10, Msg 1 0x205]"
  using click_sequences [OF desk_valid, of 100 200] desk_valid
  by (simp add: WM_LBUTTONDOWN_def WM_LBUTTONUP_def WM_RBUTTONDOWN_def WM_RBUTTONUP_def)

text \<open>
  Claim C3, as the specification states it: when the post primitive reports failure for a
  posted message, the click fails with a delivery error. The script drops the value of
  every \<^verbatim>\<open>PostMessageW\<close> call. On the desktop whose queues refuse every post, a left click
  on the valid window 1 makes its two posts, both report failure (0), and the click
  returns normally.
\<close>

theorem post_failure_undetected_counterexample:
  "result_of ` set (filter is_post (fst (send_mouse_click desk_refusing 1 100 200 ''Left Click''))) = {0}
   \<and> length (filter is_post (fst (send_mouse_click desk_refusing 1 100 200 ''Left Click''))) = 2
   \<and> is_window_valid desk_refusing 1
   \<and> snd (send_mouse_click desk_refusing 1 100 200 ''Left Click'') = Inr ()"
  by (simp add: click_defs is_window_valid_def desk_refusing_def desk_def)

text \<open>
  Claim C3, amended. On a valid handle the click never inspects what the post primitive
  reports: whatever \<^verbatim>\<open>PostMessageW\<close> answers, the click returns normally and the messages
  and waits are the same.
\<close>

theorem post_result_dropped:
  assumes "is_window_valid os h"
  shows "snd (send_mouse_click (os\<lparr>PostMessageW := p\<rparr>) h x y click_type) = Inr ()
       \<and> wires (fst (send_mouse_click (os\<lparr>PostMessageW := p\<rparr>) h x y click_type)) =
         wires (fst (send_mouse_click os h x y click_type))"
  using assms by (simp add: click_defs is_window_valid_def split: prod.split)

theorem post_result_dropped_witness:
  "is_window_valid desk 1
   \<and> snd (send_mouse_click desk_refusing 1 100 200 ''Double Click'') = Inr ()
   \<and> wires (fst (send_mouse_click desk_refusing 1 100 200 ''Double Click'')) =
     wires (fst (send_mouse_click desk 1 100 200 ''Double Click''))"
  using post_result_dropped [OF desk_valid, of "\<lambda>h msg wParam lParam. 0" 100 200 "''Double Click''"] desk_valid
  by (simp add: desk_refusing_def)

text \<open>
  Claim C4. When the handle is not valid at the time of the click, the click raises
  \<^verbatim>\<open>ValueError("Invalid window handle")\<close> (the specification's invalid-target error) and
  its only effect is the validity query: no screen-to-client conversion, no post.
\<close>

theorem invalid_handle_short_circuits:
  assumes "\<not> is_window_valid os h"
  shows "send_mouse_click os h x y click_type =
           ([call_IsWindow h (IsWindow os h)], Inl (ValueError ''Invalid window handle''))"
  using assms by (simp add: send_mouse_click_def)

theorem invalid_handle_short_circuits_witness:
  "\<not> is_window_valid desk 2
   \<and> send_mouse_click desk 2 100 200 ''Left Click'' =
       ([call_IsWindow 2 0], Inl (ValueError ''Invalid window handle''))"
proof -
  have inv: "\<not> is_window_valid desk 2"
    by (simp add: is_window_valid_def desk_def)
  show ?thesis
    using invalid_handle_short_circuits [OF inv, of 100 200 "''Left Click''"] inv
    by (simp add: desk_def)
qed

text \<open>
  Claim C8. Every message a click posts carries one position parameter whose low 16 bits
  are the low 16 bits of the local x the conversion produced, and whose bits from 16
  upwards are the local y.
\<close>

theorem lParam_packs_coordinates:
  "\<forall>e \<in> set (fst (send_mouse_click os h x y click_type)). is_post e \<longrightarrow>
      take_bit 16 (lParam_of e) = take_bit 16 (fst (screen_to_client os h x y))
    \<and> drop_bit 16 (lParam_of e) = snd (screen_to_client os h x y)"
  by (auto simp: send_mouse_click_def post_def Let_def make_lParam_low make_lParam_high
      split: prod.split)

theorem lParam_packs_coordinates_witness:
  "call_PostMessageW 1 0x201 1 11796570 1 \<in> set (fst (send_mouse_click desk 1 100 200 ''Left Click''))
   \<and> screen_to_client desk 1 100 200 = (90, 180)
   \<and> take_bit 16 (11796570 :: int) = 90 \<and> drop_bit 16 (11796570 :: int) = 180"
proof -
  have m: "call_PostMessageW 1 0x201 1 11796570 1 \<in> set (fst (send_mouse_click desk 1 100 200 ''Left Click''))"
    by (simp add: click_defs is_window_valid_def desk_def make_lParam_def WM_LBUTTONDOWN_def)
  have c: "screen_to_client desk 1 100 200 = (90, 180)"
    by (simp add: screen_to_client_def desk_def)
  from lParam_packs_coordinates [of desk 1 100 200 "''Left Click''"] m
  have "take_bit 16 (lParam_of (call_PostMessageW 1 0x201 1 11796570 1)) = take_bit 16 (fst (screen_to_client desk 1 100 200))
      \<and> drop_bit 16 (lParam_of (call_PostMessageW 1 0x201 1 11796570 1)) = snd (screen_to_client desk 1 100 200)"
    by fastforce
  with m c show ?thesis by simp
qed

text \<open>
  Claim C10. On a valid handle, a click type that is none of the three known strings makes
  the click query the handle and convert the point, post nothing, and return normally.
\<close>

theorem unknown_click_type_posts_nothing:
  assumes "is_window_valid os h"
    and "click_type \<noteq> ''Left Click''" and "click_type \<noteq> ''Right Click''"
    and "click_type \<noteq> ''Double Click''"
  shows "send_mouse_click os h x y click_type =
           ([call_IsWindow h (IsWindow os h),
             call_ScreenToClient h x y (ScreenToClient os h x y)], Inr ())"
  using assms by (simp add: send_mouse_click_def screen_to_client_def Let_def split: prod.split)

theorem unknown_click_type_posts_nothing_witness:
  "is_window_valid desk 1 \<and> ''Middle Click'' \<noteq> ''Left Click'' \<and> ''Middle Click'' \<noteq> ''Right Click''
   \<and> ''Middle Click'' \<noteq> ''Double Click''
   \<and> send_mouse_click desk 1 100 200 ''Middle Click'' =
       ([call_IsWindow 1 1, call_ScreenToClient 1 100 200 (90, 180)], Inr ())"
  using unknown_click_type_posts_nothing [OF desk_valid, of "''Middle Click''" 100 200] desk_valid
  by (simp add: desk_def)

section \<open>Properties of the window list\<close>

lemma foldl_enum_callback:
  "foldl (enum_callback isspace os) acc hs =
     acc @ map (\<lambda>h. WindowInfo h (get_window_text os h)) (filter (qualifies isspace os) hs)"
  by (induction hs arbitrary: acc) (simp_all add: enum_callback_def qualifies_def Let_def)

text \<open>
  Claim C6. Whatever the desktop holds, the list has exactly one entry for each enumerated
  window that is visible and whose title is not empty once trimmed, with that title; the
  entries are in ascending order of the lower-cased title; and when no window qualifies
  the list is empty.
\<close>

theorem enumerate_windows_spec:
  "mset (enumerate_windows isspace lower os) =
     mset (map (\<lambda>h. WindowInfo h (get_window_text os h)) (filter (qualifies isspace os) (EnumWindows os)))
   \<and> sorted (map (\<lambda>w. lower (title w)) (enumerate_windows isspace lower os))
   \<and> (\<forall>w \<in> set (enumerate_windows isspace lower os).
        is_window_visible os (hwnd w) \<and> strip isspace (title w) \<noteq> [])
   \<and> ((\<forall>h \<in> set (EnumWindows os). \<not> qualifies isspace os h) \<longrightarrow>
        enumerate_windows isspace lower os = [])"
  by (auto simp: enumerate_windows_def foldl_enum_callback qualifies_def filter_empty_conv)

lemma desk4_list:
  "enumerate_windows isspace_ascii lower_ascii desk4 =
     [WindowInfo 4 [65, 108, 112, 104, 97], WindowInfo 1 [98, 101, 116, 97]]"
  by (simp add: enumerate_windows_def enum_callback_def desk4_def desk_def is_window_visible_def
      get_window_text_def rstrip_nul_def strip_def isspace_ascii_def lower_ascii_def Let_def)

theorem enumerate_windows_spec_witness:
  "enumerate_windows isspace_ascii lower_ascii desk4 =
     [WindowInfo 4 [65, 108, 112, 104, 97], WindowInfo 1 [98, 101, 116, 97]]
   \<and> filter (qualifies isspace_ascii desk4) (EnumWindows desk4) = [1, 4]
   \<and> sorted (map (\<lambda>w. lower_ascii (title w)) (enumerate_windows isspace_ascii lower_ascii desk4))
   \<and> filter (qualifies isspace_ascii desk) (EnumWindows desk) = []
   \<and> enumerate_windows isspace_ascii lower_ascii desk = []"
proof -
  have q4: "filter (qualifies isspace_ascii desk4) (EnumWindows desk4) = [1, 4]"
    by (simp add: qualifies_def desk4_def desk_def is_window_visible_def
      get_window_text_def rstrip_nul_def strip_def isspace_ascii_def Let_def)
  have q1: "filter (qualifies isspace_ascii desk) (EnumWindows desk) = []"
    by (simp add: qualifies_def desk_def is_window_visible_def
      get_window_text_def rstrip_nul_def strip_def isspace_ascii_def Let_def)
  then have none: "\<forall>h \<in> set (EnumWindows desk). \<not> qualifies isspace_ascii desk h"
    by (simp add: filter_empty_conv)
  from enumerate_windows_spec [of isspace_ascii lower_ascii desk] none
  have e1: "enumerate_windows isspace_ascii lower_ascii desk = []" by blast
  from enumerate_windows_spec [of isspace_ascii lower_ascii desk4]
  have s4: "sorted (map (\<lambda>w. lower_ascii (title w)) (enumerate_windows isspace_ascii lower_ascii desk4))"
    by blast
  from desk4_list q4 s4 q1 e1 show ?thesis by blast
qed

section \<open>Properties of the clicking loop\<close>

text \<open>While the loop has not returned, what it does next does not depend on what it did.\<close>

lemma clicking_loop_append:
  "snd (clicking_loop int_of xs) = None \<Longrightarrow>
   clicking_loop int_of (xs @ ys) =
     (fst (clicking_loop int_of xs) @ fst (clicking_loop int_of ys), snd (clicking_loop int_of ys))"
  by (induction xs) (auto split: if_splits prod.splits flow.splits)

lemma loop_body_target_closed:
  assumes "selected_window (seen t) = Some w" and "\<not> is_window_valid (os_check t) (hwnd w)"
  shows "loop_body int_of t =
           ([call_IsWindow (hwnd w) (IsWindow (os_check t) (hwnd w)),
             root_after_handle_clicking_error ''Target window closed''], Break)"
  using assms by (simp add: loop_body_def)

lemma slept_ms_append: "slept_ms (xs @ ys) = slept_ms xs + slept_ms ys"
  by (induction xs rule: slept_ms.induct) simp_all

lemma slept_ms_click:
  "slept_ms (fst (send_mouse_click os h x y click_type)) =
     (if is_window_valid os h then click_wait click_type else 0)"
  by (simp add: send_mouse_click_def post_def click_wait_def Let_def split: prod.split)

lemma loop_body_Continue:
  assumes "loop_body int_of t = (es, Continue)"
  shows "\<exists>w p d. selected_window (seen t) = Some w \<and> click_position (seen t) = Some p
           \<and> int_of (delay_var (seen t)) = Inr d \<and> 0 \<le> d
           \<and> is_window_valid (os_check t) (hwnd w)
           \<and> snd (send_mouse_click (os_click t) (hwnd w) (pos_x p) (pos_y p) (click_type_var (seen t))) = Inr ()
           \<and> es = call_IsWindow (hwnd w) (IsWindow (os_check t) (hwnd w)) #
                fst (send_mouse_click (os_click t) (hwnd w) (pos_x p) (pos_y p) (click_type_var (seen t)))
                @ [time_sleep d]"
  using assms
  by (auto simp: loop_body_def Let_def split: option.splits if_splits prod.splits sum.splits)

lemma click_ok_valid:
  "snd (send_mouse_click os h x y click_type) = Inr u \<Longrightarrow> is_window_valid os h"
  by (auto simp: send_mouse_click_def split: if_splits)

text \<open>
  Claim C2. In any run, if a pass of the loop finds the loop running and the liveness test
  of the target window false, the loop returns in that pass: after the test its only
  effect is to hand ``Target window closed'' to the interface thread, nothing of the later
  ticks happens, so no click is attempted afterwards; and handling that report leaves the
  application not running.
\<close>

theorem target_lost_stops_loop:
  assumes "snd (clicking_loop int_of before) = None"
    and "is_running (seen t)"
    and "selected_window (seen t) = Some w"
    and "\<not> is_window_valid (os_check t) (hwnd w)"
  shows "clicking_loop int_of (before @ t # later) =
           (fst (clicking_loop int_of before) @
              [read_is_running True,
               call_IsWindow (hwnd w) (IsWindow (os_check t) (hwnd w)),
               root_after_handle_clicking_error ''Target window closed''], Some ())
       \<and> \<not> is_running (fst (handle_clicking_error ''Target window closed'' s))"
  using assms
  by (simp add: clicking_loop_append loop_body_target_closed handle_clicking_error_def)

lemma run1: "snd (clicking_loop int_of_digits [tick_on]) = None"
  by (simp add: tick_on_def app_ready_def init_app_def loop_body_def desk_def is_window_valid_def
      send_mouse_click_def Let_def screen_to_client_def int_of_digits_def)

theorem target_lost_stops_loop_witness:
  "snd (clicking_loop int_of_digits [tick_on]) = None
   \<and> is_running (seen tick_gone)
   \<and> selected_window (seen tick_gone) = Some (WindowInfo 1 [98, 101, 116, 97])
   \<and> \<not> is_window_valid (os_check tick_gone) 1
   \<and> clicking_loop int_of_digits [tick_on, tick_gone, tick_on] =
       (fst (clicking_loop int_of_digits [tick_on]) @
          [read_is_running True, call_IsWindow 1 0,
           root_after_handle_clicking_error ''Target window closed''], Some ())"
proof -
  have a: "is_running (seen tick_gone)"
    and b: "selected_window (seen tick_gone) = Some (WindowInfo 1 [98, 101, 116, 97])"
    and c: "\<not> is_window_valid (os_check tick_gone) (hwnd (WindowInfo 1 [98, 101, 116, 97]))"
    by (simp_all add: tick_gone_def tick_on_def app_ready_def is_window_valid_def)
  from target_lost_stops_loop [OF run1 a b c, of "[tick_on]"] run1 a b c
  show ?thesis by (simp add: tick_gone_def)
qed

lemma body_on:
  "loop_body int_of_digits tick_on =
     ([call_IsWindow 1 1, call_IsWindow 1 1, call_ScreenToClient 1 100 200 (90, 180),
       call_PostMessageW 1 0x201 1 11796570 1, call_PostMessageW 1 0x202 0 11796570 1,
       time_sleep 50,
       call_PostMessageW 1 0x201 1 11796570 1, call_PostMessageW 1 0x202 0 11796570 1,
       time_sleep 1], Continue)"
  by (simp add: tick_on_def app_ready_def init_app_def loop_body_def desk_def
      is_window_valid_def send_mouse_click_def Let_def screen_to_client_def int_of_digits_def
      post_def make_lParam_def WM_LBUTTONDOWN_def WM_LBUTTONUP_def)

lemma seen_restarted: "seen tick_restarted = seen tick_on"
  by (simp add: tick_restarted_def tick_on_def toggle_clicking_def stop_clicking_def
      start_clicking_def app_ready_def init_app_def desk_def is_window_valid_def)

lemma tick_restarted_eq: "tick_restarted = tick_on"
  using seen_restarted by (simp add: tick_restarted_def)

text \<open>
  Claim C5, as the specification states it: a stop request is seen at the top of the next
  pass, at most one interval later, and the loop then delivers no further click. Two runs
  show otherwise. With double clicks and an interval of 1 ms, the pass that follows a test
  of the flag sleeps 50 ms inside the click and 1 ms after it before the flag is tested
  again: a request made right after the first test waits more than 51 times the interval.
  And when the start/stop key is pressed twice between two tests, the stop sets the flag
  off, the start sets it on again and starts a second thread, the next test of the first
  loop finds the flag on, and that loop goes on: it has not returned after the next pass
  and has posted eight messages.
\<close>

theorem stop_latency_counterexample:
  "clicking_loop int_of_digits [tick_on, tick_off] =
     ([read_is_running True,
       call_IsWindow 1 1, call_IsWindow 1 1, call_ScreenToClient 1 100 200 (90, 180),
       call_PostMessageW 1 0x201 1 11796570 1, call_PostMessageW 1 0x202 0 11796570 1,
       time_sleep 50,
       call_PostMessageW 1 0x201 1 11796570 1, call_PostMessageW 1 0x202 0 11796570 1,
       time_sleep 1,
       read_is_running False], Some ())
   \<and> int_of_digits (delay_var (seen tick_on)) = Inr 1
   \<and> slept_ms (fst (clicking_loop int_of_digits [tick_on, tick_off])) = 51
   \<and> \<not> slept_ms (fst (clicking_loop int_of_digits [tick_on, tick_off])) \<le> 1
   \<and> toggle_clicking desk (seen tick_on) = stop_clicking (seen tick_on)
   \<and> \<not> is_running (fst (stop_clicking (seen tick_on)))
   \<and> is_running (seen tick_restarted)
   \<and> click_thread_start \<in> set (snd (toggle_clicking desk (fst (toggle_clicking desk (seen tick_on)))))
   \<and> snd (clicking_loop int_of_digits [tick_on, tick_restarted]) = None
   \<and> length (filter is_post (fst (clicking_loop int_of_digits [tick_on, tick_restarted]))) = 8"
proof -
  have on: "is_running (seen tick_on)" by (simp add: tick_on_def)
  have noff: "\<not> is_running (seen tick_off)" by (simp add: tick_off_def)
  have lat: "clicking_loop int_of_digits [tick_on, tick_off] =
     ([read_is_running True,
       call_IsWindow 1 1, call_IsWindow 1 1, call_ScreenToClient 1 100 200 (90, 180),
       call_PostMessageW 1 0x201 1 11796570 1, call_PostMessageW 1 0x202 0 11796570 1,
       time_sleep 50,
       call_PostMessageW 1 0x201 1 11796570 1, call_PostMessageW 1 0x202 0 11796570 1,
       time_sleep 1,
       read_is_running False], Some ())"
    using on noff by (simp add: body_on)
  have d: "int_of_digits (delay_var (seen tick_on)) = Inr 1"
    by (simp add: tick_on_def app_ready_def int_of_digits_def)
  have tg: "toggle_clicking desk (seen tick_on) = stop_clicking (seen tick_on)"
    using on by (simp add: toggle_clicking_def)
  have off: "\<not> is_running (fst (stop_clicking (seen tick_on)))"
    by (simp add: stop_clicking_def)
  have th: "click_thread_start \<in> set (snd (toggle_clicking desk (fst (toggle_clicking desk (seen tick_on)))))"
    by (simp add: tick_on_def toggle_clicking_def stop_clicking_def
      start_clicking_def app_ready_def init_app_def desk_def is_window_valid_def)
  have two: "clicking_loop int_of_digits [tick_on, tick_restarted] =
      (read_is_running True # fst (loop_body int_of_digits tick_on) @
       read_is_running True # fst (loop_body int_of_digits tick_on), None)"
    using on by (simp add: tick_restarted_eq body_on)
  have l1: "slept_ms (fst (clicking_loop int_of_digits [tick_on, tick_off])) = 51"
    unfolding lat by simp
  have r1: "is_running (seen tick_restarted)" using on by (simp add: seen_restarted)
  have r2: "snd (clicking_loop int_of_digits [tick_on, tick_restarted]) = None"
    unfolding two by simp
  have r3: "length (filter is_post (fst (clicking_loop int_of_digits [tick_on, tick_restarted]))) = 8"
    unfolding two by (simp add: body_on)
  have l2: "\<not> slept_ms (fst (clicking_loop int_of_digits [tick_on, tick_off])) \<le> 1"
    unfolding l1 by simp
  from lat d l1 l2 tg off th r1 r2 r3 show ?thesis by blast
qed

text \<open>
  Claim C5, amended. A stop request made while the loop runs is \<open>stop_clicking\<close>: it sets
  the flag off at once and interrupts nothing. The loop tests the flag only at the top of
  a pass. A pass that has started and goes through delivers its whole click and then
  sleeps the interval, so between its test of the flag and the next the loop sleeps the
  wait inside the click (10 ms for a left or right click, 50 ms for a double click) plus
  one interval. When that next test reads the application as the stop request left it,
  the loop returns at once: nothing follows the test, whatever the later ticks hold.
  Nothing is said of a run in which the application is started again before that test.
\<close>

theorem stop_observed_at_next_test:
  assumes "snd (clicking_loop int_of before) = None"
    and "is_running (seen t)"
    and "loop_body int_of t = (es, Continue)"
    and "is_running s"
    and "seen t' = fst (toggle_clicking os s)"
  shows "toggle_clicking os s = stop_clicking s
       \<and> \<not> is_running (seen t')
       \<and> clicking_loop int_of (before @ t # t' # later) =
           (fst (clicking_loop int_of before) @ read_is_running True # es @ [read_is_running False],
            Some ())
       \<and> (\<exists>w p d. selected_window (seen t) = Some w \<and> click_position (seen t) = Some p
             \<and> int_of (delay_var (seen t)) = Inr d
             \<and> es = call_IsWindow (hwnd w) (IsWindow (os_check t) (hwnd w)) #
                  fst (send_mouse_click (os_click t) (hwnd w) (pos_x p) (pos_y p)
                         (click_type_var (seen t)))
                  @ [time_sleep d]
             \<and> slept_ms es = click_wait (click_type_var (seen t)) + d)"
proof -
  from assms(4) have tg: "toggle_clicking os s = stop_clicking s"
    by (simp add: toggle_clicking_def)
  with assms(5) have off: "\<not> is_running (seen t')"
    by (simp add: stop_clicking_def)
  with assms(1,2,3) have run: "clicking_loop int_of (before @ t # t' # later) =
           (fst (clicking_loop int_of before) @ read_is_running True # es @ [read_is_running False],
            Some ())"
    by (simp add: clicking_loop_append)
  from loop_body_Continue [OF assms(3)] obtain w p d where
    f: "selected_window (seen t) = Some w" "click_position (seen t) = Some p"
       "int_of (delay_var (seen t)) = Inr d"
       "snd (send_mouse_click (os_click t) (hwnd w) (pos_x p) (pos_y p) (click_type_var (seen t))) = Inr ()"
       "es = call_IsWindow (hwnd w) (IsWindow (os_check t) (hwnd w)) #
                fst (send_mouse_click (os_click t) (hwnd w) (pos_x p) (pos_y p) (click_type_var (seen t)))
                @ [time_sleep d]"
    by blast
  from f(4) have "is_window_valid (os_click t) (hwnd w)" by (rule click_ok_valid)
  with f(5) have "slept_ms es = click_wait (click_type_var (seen t)) + d"
    by (simp add: slept_ms_append slept_ms_click)
  with f have "\<exists>w p d. selected_window (seen t) = Some w \<and> click_position (seen t) = Some p
             \<and> int_of (delay_var (seen t)) = Inr d
             \<and> es = call_IsWindow (hwnd w) (IsWindow (os_check t) (hwnd w)) #
                  fst (send_mouse_click (os_click t) (hwnd w) (pos_x p) (pos_y p)
                         (click_type_var (seen t)))
                  @ [time_sleep d]
             \<and> slept_ms es = click_wait (click_type_var (seen t)) + d"
    by blast
  with tg off run show ?thesis by blast
qed

theorem stop_observed_at_next_test_witness:
  "snd (clicking_loop int_of_digits []) = None
   \<and> is_running (seen tick_on)
   \<and> seen tick_stopped = fst (toggle_clicking desk (seen tick_on))
   \<and> \<not> is_running (seen tick_stopped)
   \<and> clicking_loop int_of_digits [tick_on, tick_stopped, tick_on] =
       (read_is_running True # fst (loop_body int_of_digits tick_on) @ [read_is_running False], Some ())
   \<and> snd (loop_body int_of_digits tick_on) = Continue
   \<and> slept_ms (fst (loop_body int_of_digits tick_on)) = click_wait ''Double Click'' + 1
   \<and> click_wait ''Double Click'' = 50"
proof -
  have a: "snd (clicking_loop int_of_digits []) = None" by simp
  have b: "is_running (seen tick_on)"
    and c: "seen tick_stopped = fst (toggle_clicking desk (seen tick_on))"
    and d: "int_of_digits (delay_var (seen tick_on)) = Inr 1"
    and e: "click_type_var (seen tick_on) = ''Double Click''"
    by (simp_all add: tick_on_def tick_stopped_def app_ready_def int_of_digits_def)
  from stop_observed_at_next_test [OF a b body_on b c, of "[tick_on]"] d e
  have "\<not> is_running (seen tick_stopped)
     \<and> clicking_loop int_of_digits [tick_on, tick_stopped, tick_on] =
       (read_is_running True # fst (loop_body int_of_digits tick_on) @ [read_is_running False], Some ())
     \<and> slept_ms (fst (loop_body int_of_digits tick_on)) = click_wait ''Double Click'' + 1"
    by (auto simp: body_on)
  with a b c show ?thesis by (simp add: body_on click_wait_def)
qed

section \<open>Properties of starting and of the position hotkey\<close>

text \<open>
  Claim C7. When no window is selected, or no position is selected, or the selected handle
  is not valid, starting leaves the application state as it was (so a loop that was not
  running stays not running, also through the toggle), starts no thread, and shows a
  message box.
\<close>

theorem start_rejected:
  assumes "selected_window s = None \<or> click_position s = None
           \<or> (\<exists>w. selected_window s = Some w \<and> \<not> is_window_valid os (hwnd w))"
  shows "fst (start_clicking os s) = s
       \<and> click_thread_start \<notin> set (snd (start_clicking os s))
       \<and> (\<exists>e \<in> set (snd (start_clicking os s)). is_messagebox e)
       \<and> (\<not> is_running s \<longrightarrow> fst (toggle_clicking os s) = s)"
  using assms by (auto simp: start_clicking_def toggle_clicking_def split: option.splits)

theorem start_rejected_witness:
  "selected_window init_app = None
   \<and> start_clicking desk init_app =
       (init_app, [messagebox_showwarning ''No Window Selected'' ''Please select a target window first!''])
   \<and> click_position (app_ready\<lparr>click_position := None\<rparr>) = None
   \<and> fst (start_clicking desk (app_ready\<lparr>click_position := None\<rparr>)) = app_ready\<lparr>click_position := None\<rparr>
   \<and> selected_window app_ready = Some (WindowInfo 1 [98, 101, 116, 97])
   \<and> \<not> is_window_valid (desk\<lparr>IsWindow := (\<lambda>h. 0)\<rparr>) 1
   \<and> fst (start_clicking (desk\<lparr>IsWindow := (\<lambda>h. 0)\<rparr>) app_ready) = app_ready
   \<and> \<not> is_running app_ready
   \<and> fst (toggle_clicking (desk\<lparr>IsWindow := (\<lambda>h. 0)\<rparr>) app_ready) = app_ready
   \<and> click_thread_start \<notin> set (snd (start_clicking (desk\<lparr>IsWindow := (\<lambda>h. 0)\<rparr>) app_ready))"
proof -
  let ?gone = "desk\<lparr>IsWindow := (\<lambda>h. 0)\<rparr>"
  have a: "selected_window init_app = None" by (simp add: init_app_def)
  have b: "click_position (app_ready\<lparr>click_position := None\<rparr>) = None" by simp
  have c: "selected_window app_ready = Some (WindowInfo 1 [98, 101, 116, 97])"
    and d: "\<not> is_window_valid ?gone 1" and e: "\<not> is_running app_ready"
    by (simp_all add: app_ready_def init_app_def is_window_valid_def)
  from c d have h3: "selected_window app_ready = None \<or> click_position app_ready = None
           \<or> (\<exists>w. selected_window app_ready = Some w \<and> \<not> is_window_valid ?gone (hwnd w))"
    by simp
  have m: "start_clicking desk init_app =
       (init_app, [messagebox_showwarning ''No Window Selected'' ''Please select a target window first!''])"
    by (simp add: start_clicking_def init_app_def)
  from start_rejected [of "app_ready\<lparr>click_position := None\<rparr>" desk] b
  have r2: "fst (start_clicking desk (app_ready\<lparr>click_position := None\<rparr>)) = app_ready\<lparr>click_position := None\<rparr>"
    by blast
  from start_rejected [OF h3] e
  have r3: "fst (start_clicking ?gone app_ready) = app_ready"
    "fst (toggle_clicking ?gone app_ready) = app_ready"
    "click_thread_start \<notin> set (snd (start_clicking ?gone app_ready))"
    by blast+
  from a m b r2 c d r3 e show ?thesis by blast
qed

lemma press_hotkey_idle:
  "\<not> position_selection_active s \<Longrightarrow> press_hotkey oss s = (s, [])"
  by (induction oss) (simp_all add: handle_position_hotkey_def)

text \<open>
  Claim C9. After an arming from the unarmed state, the first press of the hotkey samples
  the cursor once, stores the sample as the click position, removes the hotkey and disarms;
  any number of later presses, whatever the cursor then is, sample nothing and leave the
  state as it is.
\<close>

theorem hotkey_fires_once:
  assumes "\<not> position_selection_active s"
  shows "position_selection_active (fst (start_position_selection s))
       \<and> handle_position_hotkey os (fst (start_position_selection s)) =
           (s\<lparr>click_position := Some (ClickPosition (fst (GetCursorPos os)) (snd (GetCursorPos os))),
              position_selection_active := False\<rparr>,
            [call_GetCursorPos (GetCursorPos os),
             position_label_config (ClickPosition (fst (GetCursorPos os)) (snd (GetCursorPos os))),
             select_position_btn_config ''normal'' ''Select Position (F8)'',
             keyboard_remove_hotkey ''F8'',
             root_deiconify, root_lift, root_focus_set,
             update_status ''Position selected successfully!'' False True])
       \<and> press_hotkey later (fst (handle_position_hotkey os (fst (start_position_selection s)))) =
           (fst (handle_position_hotkey os (fst (start_position_selection s))), [])"
  using assms
  by (simp add: start_position_selection_def handle_position_hotkey_def get_cursor_position_def
      press_hotkey_idle split: prod.split)

theorem hotkey_fires_once_witness:
  "\<not> position_selection_active init_app
   \<and> position_selection_active (fst (start_position_selection init_app))
   \<and> click_position (fst (handle_position_hotkey desk (fst (start_position_selection init_app))))
       = Some (ClickPosition 100 200)
   \<and> press_hotkey [desk\<lparr>GetCursorPos := (7, 8)\<rparr>, desk]
        (fst (handle_position_hotkey desk (fst (start_position_selection init_app)))) =
       (init_app\<lparr>click_position := Some (ClickPosition 100 200)\<rparr>, [])"
proof -
  let ?armed = "fst (start_position_selection init_app)"
  have a: "\<not> position_selection_active init_app" by (simp add: init_app_def)
  have g: "GetCursorPos desk = (100, 200)" by (simp add: desk_def)
  note th = hotkey_fires_once [OF a, of desk "[desk\<lparr>GetCursorPos := (7, 8)\<rparr>, desk]"]
  from th have armed: "position_selection_active ?armed" by blast
  from th g have fired: "fst (handle_position_hotkey desk ?armed) =
      init_app\<lparr>click_position := Some (ClickPosition 100 200), position_selection_active := False\<rparr>"
    by simp
  also have "\<dots> = init_app\<lparr>click_position := Some (ClickPosition 100 200)\<rparr>"
    by (simp add: init_app_def)
  finally have fired': "fst (handle_position_hotkey desk ?armed) =
      init_app\<lparr>click_position := Some (ClickPosition 100 200)\<rparr>" .
  from th have "press_hotkey [desk\<lparr>GetCursorPos := (7, 8)\<rparr>, desk] (fst (handle_position_hotkey desk ?armed)) =
      (fst (handle_position_hotkey desk ?armed), [])"
    by blast
  with fired' have later: "press_hotkey [desk\<lparr>GetCursorPos := (7, 8)\<rparr>, desk] (fst (handle_position_hotkey desk ?armed)) =
      (init_app\<lparr>click_position := Some (ClickPosition 100 200)\<rparr>, [])"
    by simp
  from fired' have pos: "click_position (fst (handle_position_hotkey desk ?armed)) = Some (ClickPosition 100 200)"
    by simp
  from a armed pos later show ?thesis by blast
qed

end
